theory Spec2Isabelle
  imports Main "HOL-Library.Word" "HOL-Library.AList"
begin

section \<open>Mock lab analyzer: MLLP framing, HL7 order extraction, result composition, order store\<close>

text \<open>
  A shallow embedding of \<^verbatim>\<open>lab_analyzer/analyzer.py\<close> and \<^verbatim>\<open>shared/state.py\<close>.
  Python \<^verbatim>\<open>bytes\<close> are lists of 8-bit words. A Python \<^verbatim>\<open>str\<close> is a \<open>string\<close>
  holding its UTF-8 bytes, so that encoding a \<^verbatim>\<open>str\<close> is a byte-for-byte copy.
\<close>

subsection \<open>MLLP codec\<close>

type_synonym byte = "8 word"
type_synonym bytes = "byte list"

text \<open>\<^verbatim>\<open>MLLP_START = b'\x0b'\<close> and \<^verbatim>\<open>MLLP_END = b'\x1c\x0d'\<close>.\<close>

definition MLLP_START :: bytes where
  "MLLP_START = [0x0b]"

definition MLLP_END :: bytes where
  "MLLP_END = [0x1c, 0x0d]"

text \<open>\<^verbatim>\<open>bytes.startswith\<close> and \<^verbatim>\<open>bytes.endswith\<close>.\<close>

definition startswith :: "'a list \<Rightarrow> 'a list \<Rightarrow> bool" where
  "startswith data p = (take (length p) data = p)"

definition endswith :: "'a list \<Rightarrow> 'a list \<Rightarrow> bool" where
  "endswith data p = (length p \<le> length data \<and> drop (length data - length p) data = p)"

text \<open>The slice \<^verbatim>\<open>data[1:-2]\<close>: the stop index \<open>len - 2\<close> is clipped at 0.\<close>

definition slice_1_m2 :: "'a list \<Rightarrow> 'a list" where
  "slice_1_m2 data = drop 1 (take (length data - 2) data)"

text \<open>\<^verbatim>\<open>str.encode('utf-8')\<close> on a string held as its UTF-8 bytes.\<close>

definition encode_utf8 :: "string \<Rightarrow> bytes" where
  "encode_utf8 s = map (\<lambda>c. of_nat (of_char c)) s"

text \<open>The argument of \<^verbatim>\<open>wrap_mllp\<close> is a \<^verbatim>\<open>str\<close> or already \<^verbatim>\<open>bytes\<close>
  (the \<^verbatim>\<open>isinstance\<close> test).\<close>

datatype mllp_arg = Str string | Bytes bytes

fun wrap_mllp :: "mllp_arg \<Rightarrow> bytes" where
  "wrap_mllp (Str message) = MLLP_START @ encode_utf8 message @ MLLP_END"
| "wrap_mllp (Bytes message) = MLLP_START @ message @ MLLP_END"

definition unwrap_mllp :: "bytes \<Rightarrow> bytes" where
  "unwrap_mllp data =
     (if startswith data MLLP_START \<and> endswith data MLLP_END then slice_1_m2 data else data)"

subsection \<open>Extracted order data\<close>

text \<open>The dictionary returned by \<^verbatim>\<open>parse_order_message\<close>: always the same sixteen keys.\<close>

record parsed_data =
  sending_application :: string
  sending_facility :: string
  message_control_id :: string
  patient_id :: string
  patient_name :: string
  patient_dob :: string
  patient_sex :: string
  patient_address :: string
  patient_phone :: string
  encounter_id :: string
  placer_order :: string
  filler_order :: string
  ordering_provider :: string
  test_id :: string
  test_name :: string
  test_system :: string

subsection \<open>Order store (\<^verbatim>\<open>shared/state.py\<close>)\<close>

text \<open>
  One stored message: the inner dictionary built by \<^verbatim>\<open>add_message\<close>. The key
  \<^verbatim>\<open>'id'\<close> is the field \<open>id_m\<close>; \<^verbatim>\<open>None\<close> is \<open>None\<close>.
\<close>

record message =
  id_m :: string
  raw_message :: string
  parsed_data :: parsed_data
  status :: string
  received_at :: string
  processed_at :: "string option"
  result_message :: "string option"

text \<open>
  Python dictionaries are objects handed around by reference, so the store is modelled over
  an explicit heap. There are two kinds of objects: the outer dictionaries from message id
  to a reference to a message (insertion-ordered, hence association lists), and the
  messages themselves. Allocation takes the next unused address of the kind.
\<close>

type_synonym addr = nat

record heap =
  dict_at :: "addr \<Rightarrow> (string \<times> addr) list"
  message_at :: "addr \<Rightarrow> message"
  dict_next :: addr
  message_next :: addr

text \<open>A \<^verbatim>\<open>MessageQueue\<close> object: its attribute \<^verbatim>\<open>_messages\<close> refers to a dictionary.
  The lock is not modelled: every operation runs as one step.\<close>

record MessageQueue =
  messages :: addr

text \<open>\<^verbatim>\<open>__init__\<close>: \<^verbatim>\<open>self._messages = {}\<close>.\<close>

definition init_queue :: "heap \<Rightarrow> MessageQueue \<times> heap" where
  "init_queue h =
     (\<lparr>messages = dict_next h\<rparr>,
      h\<lparr>dict_at := (dict_at h)(dict_next h := []), dict_next := Suc (dict_next h)\<rparr>)"

text \<open>
  \<^verbatim>\<open>add_message\<close>. The fresh identifier \<^verbatim>\<open>str(uuid.uuid4())\<close> and the time stamp
  \<^verbatim>\<open>datetime.now().isoformat()\<close> are inputs. The item assignment on the outer
  dictionary keeps the position of a key that is already there and appends a new one.
\<close>

definition add_message ::
  "string \<Rightarrow> string \<Rightarrow> MessageQueue \<Rightarrow> string \<Rightarrow> parsed_data \<Rightarrow> heap \<Rightarrow> string \<times> heap" where
  "add_message uuid4 now self message_data parsed h =
     (let message_id = uuid4;
          a = message_next h;
          m = \<lparr>id_m = message_id, raw_message = message_data, parsed_data = parsed,
               status = ''pending'', received_at = now, processed_at = None,
               result_message = None\<rparr>
      in (message_id,
          h\<lparr>message_at := (message_at h)(a := m),
            message_next := Suc a,
            dict_at := (dict_at h)(messages self :=
                         AList.update message_id a (dict_at h (messages self)))\<rparr>))"

text \<open>\<^verbatim>\<open>get_message\<close>: \<^verbatim>\<open>self._messages.get(message_id)\<close>, the reference held by the
  store or \<^verbatim>\<open>None\<close>.\<close>

definition get_message :: "MessageQueue \<Rightarrow> string \<Rightarrow> heap \<Rightarrow> addr option" where
  "get_message self message_id h = map_of (dict_at h (messages self)) message_id"

text \<open>\<^verbatim>\<open>get_all_messages\<close>: \<^verbatim>\<open>dict(self._messages)\<close> builds a new outer dictionary with
  the same keys and the same references.\<close>

definition get_all_messages :: "MessageQueue \<Rightarrow> heap \<Rightarrow> addr \<times> heap" where
  "get_all_messages self h =
     (dict_next h,
      h\<lparr>dict_at := (dict_at h)(dict_next h := dict_at h (messages self)),
        dict_next := Suc (dict_next h)\<rparr>)"

text \<open>\<^verbatim>\<open>get_pending_messages\<close>: the comprehension
  \<^verbatim>\<open>{k: v for k, v in self._messages.items() if v['status'] == 'pending'}\<close>.\<close>

definition get_pending_messages :: "MessageQueue \<Rightarrow> heap \<Rightarrow> addr \<times> heap" where
  "get_pending_messages self h =
     (dict_next h,
      h\<lparr>dict_at := (dict_at h)(dict_next h :=
                     filter (\<lambda>(k, v). status (message_at h v) = ''pending'')
                       (dict_at h (messages self))),
        dict_next := Suc (dict_next h)\<rparr>)"

text \<open>Truth value of an \<^verbatim>\<open>Optional[str]\<close>: \<^verbatim>\<open>None\<close> and the empty string are false.\<close>

fun truthy :: "string option \<Rightarrow> bool" where
  "truthy None = False"
| "truthy (Some s) = (s \<noteq> [])"

text \<open>\<^verbatim>\<open>status in ['processed', 'discarded']\<close>.\<close>

definition terminal :: "string \<Rightarrow> bool" where
  "terminal st = (st = ''processed'' \<or> st = ''discarded'')"

text \<open>
  \<^verbatim>\<open>update_status\<close>. The three item assignments act on the message object the store
  refers to; \<^verbatim>\<open>datetime.now().isoformat()\<close> is the input \<open>now\<close>.
\<close>

definition update_status ::
  "string \<Rightarrow> MessageQueue \<Rightarrow> string \<Rightarrow> string \<Rightarrow> string option \<Rightarrow> heap \<Rightarrow> bool \<times> heap" where
  "update_status now self message_id st result h =
     (case map_of (dict_at h (messages self)) message_id of
        None \<Rightarrow> (False, h)
      | Some a \<Rightarrow>
          (let h1 = h\<lparr>message_at := (message_at h)(a := (message_at h a)\<lparr>status := st\<rparr>)\<rparr>;
               h2 = (if terminal st
                     then h1\<lparr>message_at :=
                             (message_at h1)(a := (message_at h1 a)\<lparr>processed_at := Some now\<rparr>)\<rparr>
                     else h1);
               h3 = (if truthy result
                     then h2\<lparr>message_at :=
                             (message_at h2)(a := (message_at h2 a)\<lparr>result_message := result\<rparr>)\<rparr>
                     else h2)
           in (True, h3)))"

text \<open>A caller making the calls \<open>calls\<close> (time, status, result message) one after the other
  on one id.\<close>

fun update_status_calls ::
  "MessageQueue \<Rightarrow> string \<Rightarrow> (string \<times> string \<times> string option) list \<Rightarrow> heap \<Rightarrow> heap" where
  "update_status_calls self message_id [] h = h"
| "update_status_calls self message_id ((now, st, result) # calls) h =
     update_status_calls self message_id calls
       (snd (update_status now self message_id st result h))"

text \<open>What the store holds under an id: the message its reference leads to.\<close>

definition stored :: "MessageQueue \<Rightarrow> string \<Rightarrow> heap \<Rightarrow> message option" where
  "stored self message_id h = map_option (message_at h) (get_message self message_id h)"

text \<open>What a holder of a reference can do to the object behind it: an in-place change of a
  message (such as \<^verbatim>\<open>m['status'] = ...\<close>) and of an outer dictionary (such as
  \<^verbatim>\<open>d[k] = ...\<close> or \<^verbatim>\<open>del d[k]\<close>).\<close>

definition mutate_message :: "addr \<Rightarrow> (message \<Rightarrow> message) \<Rightarrow> heap \<Rightarrow> heap" where
  "mutate_message a f h = h\<lparr>message_at := (message_at h)(a := f (message_at h a))\<rparr>"

definition mutate_dict ::
  "addr \<Rightarrow> ((string \<times> addr) list \<Rightarrow> (string \<times> addr) list) \<Rightarrow> heap \<Rightarrow> heap" where
  "mutate_dict d f h = h\<lparr>dict_at := (dict_at h)(d := f (dict_at h d))\<rparr>"

subsection \<open>Result composer (\<^verbatim>\<open>LabAnalyzerService\<close>)\<close>

text \<open>One entry of the observation-field table: a dictionary with six keys.\<close>

record obs_field =
  id_f :: string
  name_f :: string
  unit_f :: string
  reference_f :: string
  value_f :: string
  interpretation_f :: string

text \<open>The dictionary literal \<^verbatim>\<open>test_fields\<close> of \<^verbatim>\<open>get_observation_fields\<close>, in its order.\<close>

definition test_fields :: "(string \<times> obs_field list) list" where
  "test_fields =
     [(''LP99237-7'',
         [\<lparr>id_f = ''717-9'', name_f = ''Hemoglobin [Presence] in Blood'', unit_f = ''g/dL'',
            reference_f = ''12.0-16.0 (F) / 13.0-17.0 (M)'', value_f = ''13.2'',
            interpretation_f = ''Normal''\<rparr>,
          \<lparr>id_f = ''LP15101-6'', name_f = ''Hematocrit'', unit_f = ''%'',
            reference_f = ''36-46 (F) / 40-52 (M)'', value_f = ''39.5'',
            interpretation_f = ''Normal''\<rparr>,
          \<lparr>id_f = ''LP393833-1'', name_f =
              ''Leukocyte phosphatase | White blood cells | Hematology and Cell counts'',
            unit_f = ''10*9/L'',
            reference_f = ''4.0-10.0'', value_f = ''11.8'',
            interpretation_f = ''Abnormal''\<rparr>,
          \<lparr>id_f = ''LP7536-8'', name_f = ''RBC'', unit_f = ''10*12/L'',
            reference_f = ''4.2-5.4'', value_f = ''4.8'',
            interpretation_f = ''Normal''\<rparr>]),
        (''BMP'',
         [\<lparr>id_f = ''2345-7'', name_f = ''Glucose'', unit_f = ''mg/dL'',
            reference_f = ''70-100'', value_f = ''92'',
            interpretation_f = ''Normal''\<rparr>,
          \<lparr>id_f = ''3094-0'', name_f = ''Blood Urea Nitrogen'', unit_f = ''mg/dL'',
            reference_f = ''7-20'', value_f = ''15'',
            interpretation_f = ''Normal''\<rparr>,
          \<lparr>id_f = ''2160-0'', name_f = ''Creatinine'', unit_f = ''mg/dL'',
            reference_f = ''0.6-1.2'', value_f = ''0.9'',
            interpretation_f = ''Normal''\<rparr>,
          \<lparr>id_f = ''2951-2'', name_f = ''Sodium'', unit_f = ''mmol/L'',
            reference_f = ''136-145'', value_f = ''140'',
            interpretation_f = ''Normal''\<rparr>,
          \<lparr>id_f = ''2823-3'', name_f = ''Potassium'', unit_f = ''mmol/L'',
            reference_f = ''3.5-5.0'', value_f = ''4.2'',
            interpretation_f = ''Normal''\<rparr>]),
        (''GLUCOSE'',
         [\<lparr>id_f = ''1554-5'', name_f = ''Glucose'', unit_f = ''mg/dL'',
            reference_f = ''70-105'', value_f = ''88'',
            interpretation_f = ''Normal''\<rparr>]),
        (''1554-5'',
         [\<lparr>id_f = ''1554-5'', name_f = ''Glucose'', unit_f = ''mg/dL'',
            reference_f = ''70-105'', value_f = ''88'',
            interpretation_f = ''Normal''\<rparr>]),
        (''26604007'',
         [\<lparr>id_f = ''LP32067-8'', name_f = ''Hemoglobin'', unit_f = ''g/dL'',
            reference_f = ''12.0-17.0'', value_f = ''13.2'',
            interpretation_f = ''Normal''\<rparr>,
          \<lparr>id_f = ''LP15101-6'', name_f = ''Hematocrit'', unit_f = ''%'',
            reference_f = ''36.0-50.0'', value_f = ''39.5'',
            interpretation_f = ''Normal''\<rparr>,
          \<lparr>id_f = ''LA12896-9'', name_f = ''Erythrocytes'', unit_f = ''10*6/uL'',
            reference_f = ''4.0-10.0'', value_f = ''11.8'',
            interpretation_f = ''Abnormal''\<rparr>,
          \<lparr>id_f = ''LP7631-7'', name_f = ''Platelets'', unit_f = ''10*3/uL'',
            reference_f = ''150-400'', value_f = ''250'',
            interpretation_f = ''Normal''\<rparr>])]"

text \<open>
  \<^verbatim>\<open>str.strip()\<close> removes white space at both ends; the white space characters of the
  ASCII range are modelled (tab, line feed, vertical tab, form feed, carriage return, the
  separators 0x1C to 0x1F, space). \<^verbatim>\<open>str.lower()\<close> is modelled on the ASCII letters; no
  other character has a lower-case form that occurs in the words compared below.
\<close>

definition is_space :: "char \<Rightarrow> bool" where
  "is_space c =
     (c \<in> set [CHR 0x09, CHR 0x0A, CHR 0x0B, CHR 0x0C, CHR 0x0D, CHR 0x1C, CHR 0x1D, CHR 0x1E,
                CHR 0x1F, CHR 0x20])"

definition strip :: "string \<Rightarrow> string" where
  "strip s = rev (dropWhile is_space (rev (dropWhile is_space s)))"

definition lower_char :: "char \<Rightarrow> char" where
  "lower_char c =
     (case map_of (zip ''ABCDEFGHIJKLMNOPQRSTUVWXYZ'' ''abcdefghijklmnopqrstuvwxyz'') c of
        None \<Rightarrow> c
      | Some l \<Rightarrow> l)"

definition lower :: "string \<Rightarrow> string" where
  "lower s = map lower_char s"

text \<open>\<^verbatim>\<open>get_observation_fields\<close>: \<^verbatim>\<open>test_fields.get(test_id.strip(), [])\<close>.\<close>

definition get_observation_fields :: "string \<Rightarrow> obs_field list" where
  "get_observation_fields test_id' =
     (let test_id_clean = strip test_id'
      in case map_of test_fields test_id_clean of None \<Rightarrow> [] | Some entry \<Rightarrow> entry)"

text \<open>\<^verbatim>\<open>str(n)\<close> for a natural number, as the f-strings print it; \<open>digit\<close> is only
  asked for numbers below ten.\<close>

definition digit :: "nat \<Rightarrow> char" where
  "digit n = ''0123456789'' ! n"

fun str_int :: "nat \<Rightarrow> string" where
  "str_int n = (if n < 10 then [digit n] else str_int (n div 10) @ [digit (n mod 10)])"

text \<open>\<^verbatim>\<open>sep.join(xs)\<close>.\<close>

fun join :: "'a list \<Rightarrow> 'a list list \<Rightarrow> 'a list" where
  "join sep [] = []"
| "join sep [x] = x"
| "join sep (x # y # ys) = x @ sep @ join sep (y # ys)"

text \<open>
  Python floats belong to the runtime. The composer uses two things of them, which the
  model takes as parameters: the literal \<^verbatim>\<open>0.0\<close> and the formatting \<^verbatim>\<open>{value:.2f}\<close>.
\<close>

record 'f floats =
  float_zero :: 'f
  format_2f :: "'f \<Rightarrow> string"

text \<open>
  The loop \<^verbatim>\<open>for idx, field in enumerate(obs_fields, 1)\<close> of \<^verbatim>\<open>create_result_message\<close>,
  appending one OBX segment per field to \<^verbatim>\<open>segments\<close>.
\<close>

fun obx_loop ::
  "'f floats \<Rightarrow> string \<Rightarrow> (string \<rightharpoonup> 'f) \<Rightarrow> (string \<rightharpoonup> string) \<Rightarrow> nat \<Rightarrow> obs_field list \<Rightarrow>
   string list \<Rightarrow> string list" where
  "obx_loop fl timestamp observation_values observation_interpretations idx [] segments =
     segments"
| "obx_loop fl timestamp observation_values observation_interpretations idx (field # obs_fields)
     segments =
     (let value = (case observation_values (id_f field) of
                     None \<Rightarrow> float_zero fl | Some v \<Rightarrow> v);
          interpretation = (case observation_interpretations (id_f field) of
                              None \<Rightarrow> ''Normal'' | Some i \<Rightarrow> i);
          interpretation_l = lower interpretation;
          abnormal_flag =
            (if interpretation_l \<in> set [''normal'', ''n''] then ''N''
             else if interpretation_l \<in> set [''abnormal'', ''a''] then ''A''
             else if interpretation_l \<in> set [''high'', ''h''] then ''H''
             else if interpretation_l \<in> set [''low'', ''l''] then ''L''
             else if interpretation_l \<in> set [''critical'', ''critical high'', ''hh''] then ''HH''
             else if interpretation_l \<in> set [''critical low'', ''ll''] then ''LL''
             else ''N'');
          obx = ''OBX|'' @ str_int idx @ ''|NM|'' @ id_f field @ ''^'' @ name_f field @
                ''^http://loinc.org||'' @ format_2f fl value @ ''|'' @ unit_f field @ ''|'' @
                reference_f field @ ''|'' @ abnormal_flag @ ''|||F|||'' @ timestamp @
                ''||||||''
      in obx_loop fl timestamp observation_values observation_interpretations (idx + 1) obs_fields
           (segments @ [obx]))"

text \<open>
  \<^verbatim>\<open>create_result_message\<close>, up to the list \<^verbatim>\<open>segments\<close>. The time stamp
  \<^verbatim>\<open>datetime.now().strftime('%Y%m%d%H%M%S')\<close> is an input; the interpretations may be
  \<^verbatim>\<open>None\<close>, which stands for the empty dictionary.
\<close>

definition create_result_segments ::
  "'f floats \<Rightarrow> string \<Rightarrow> parsed_data \<Rightarrow> (string \<rightharpoonup> 'f) \<Rightarrow> (string \<rightharpoonup> string) option \<Rightarrow>
   string list" where
  "create_result_segments fl timestamp pd observation_values observation_interpretations =
     (let interpretations = (case observation_interpretations of
                               None \<Rightarrow> Map.empty | Some m \<Rightarrow> m);
          msh = ''MSH|^~'' @ [CHR 0x5C] @ ''&|LAB_ANALYZER|DUMMY_LAB|'' @
                sending_application pd @ ''|'' @ sending_facility pd @ ''|'' @ timestamp @
                ''||ORU^R01|'' @ message_control_id pd @ ''_RESULT|P|2.5'';
          pid = ''PID|1||'' @ patient_id pd @ ''||'' @ patient_name pd @ ''||'' @
                patient_dob pd @ ''|'' @ patient_sex pd @ ''|||'' @ patient_address pd @
                ''||'' @ patient_phone pd @ ''|||||||'';
          pv1 = ''PV1|1|||||||||||||||||'' @ encounter_id pd @
                ''|||||||||||||||||||||||||||||||||'';
          orc = ''ORC|RE|'' @ placer_order pd @ ''|'' @ filler_order pd @ ''||CM||||'' @
                timestamp @ ''|||'' @ ordering_provider pd;
          obr = (if test_system pd \<noteq> []
                 then ''OBR|1|'' @ placer_order pd @ ''|'' @ filler_order pd @ ''|'' @
                      test_id pd @ ''^'' @ test_name pd @ ''^'' @ test_system pd @ ''|||'' @
                      timestamp @ ''|||||||'' @ timestamp @ ''|||'' @ ordering_provider pd @
                      ''||||||||F''
                 else ''OBR|1|'' @ placer_order pd @ ''|'' @ filler_order pd @ ''|'' @
                      test_id pd @ ''^'' @ test_name pd @ ''|||'' @ timestamp @ ''|||||||'' @
                      timestamp @ ''|||'' @ ordering_provider pd @ ''||||||||F'');
          segments = [msh, pid] @ (if encounter_id pd \<noteq> [] then [pv1] else []) @ [orc, obr];
          obs_fields = get_observation_fields (test_id pd)
      in obx_loop fl timestamp observation_values interpretations 1 obs_fields segments)"

text \<open>The returned message: \<^verbatim>\<open>'\r'.join(segments)\<close>.\<close>

definition create_result_message ::
  "'f floats \<Rightarrow> string \<Rightarrow> parsed_data \<Rightarrow> (string \<rightharpoonup> 'f) \<Rightarrow> (string \<rightharpoonup> string) option \<Rightarrow>
   string" where
  "create_result_message fl timestamp pd observation_values observation_interpretations =
     join [CHR 0x0D]
       (create_result_segments fl timestamp pd observation_values observation_interpretations)"

subsection \<open>HL7 order extraction (\<^verbatim>\<open>DummyLabAnalyzer.parse_order_message\<close>)\<close>

text \<open>
  The parser \<^verbatim>\<open>hl7.parse\<close> is a library. Its result is a list of segments, a segment is
  a list of fields, and a field is a list of children; a child is kept here as its text.
  \<^verbatim>\<open>str(field)\<close> joins the children with the repetition separator; a container is
  false in a truth test exactly when it is empty.
\<close>

type_synonym hl7_field = "string list"
type_synonym hl7_segment = "hl7_field list"
type_synonym hl7_message = "hl7_segment list"

datatype error = IndexError | KeyError | ValueError

definition field_str :: "hl7_field \<Rightarrow> string" where
  "field_str f = join ''~'' f"

text \<open>\<^verbatim>\<open>seg[0][0]\<close>, and the list \<^verbatim>\<open>[seg[0][0] for seg in parsed]\<close>: indexing an empty
  container raises \<^verbatim>\<open>IndexError\<close>.\<close>

fun seg_id :: "hl7_segment \<Rightarrow> error + string" where
  "seg_id [] = Inl IndexError"
| "seg_id ([] # fs) = Inl IndexError"
| "seg_id ((c # cs) # fs) = Inr c"

fun seg_ids :: "hl7_message \<Rightarrow> error + string list" where
  "seg_ids [] = Inr []"
| "seg_ids (seg # segs) =
     (case seg_id seg of
        Inl e \<Rightarrow> Inl e
      | Inr c \<Rightarrow> (case seg_ids segs of Inl e \<Rightarrow> Inl e | Inr cs \<Rightarrow> Inr (c # cs)))"

text \<open>
  The library's \<^verbatim>\<open>Message.segment(segment_id)\<close>: it collects every segment whose
  \<^verbatim>\<open>seg[0][0]\<close> is the id, raises \<^verbatim>\<open>KeyError\<close> when there is none and returns the
  first one.
\<close>

definition message_segment :: "hl7_message \<Rightarrow> string \<Rightarrow> error + hl7_segment" where
  "message_segment parsed segment_id =
     (case seg_ids parsed of
        Inl e \<Rightarrow> Inl e
      | Inr ids \<Rightarrow>
          (case filter (\<lambda>seg. seg_id seg = Inr segment_id) parsed of
             [] \<Rightarrow> Inl KeyError
           | seg # matches \<Rightarrow> Inr seg))"

text \<open>\<^verbatim>\<open>parsed.segment(X) if X in [seg[0][0] for seg in parsed] else None\<close>.\<close>

definition segment_or_none :: "hl7_message \<Rightarrow> string \<Rightarrow> error + hl7_segment option" where
  "segment_or_none parsed segment_id =
     (case seg_ids parsed of
        Inl e \<Rightarrow> Inl e
      | Inr ids \<Rightarrow>
          if segment_id \<in> set ids
          then (case message_segment parsed segment_id of
                  Inl e \<Rightarrow> Inl e
                | Inr seg \<Rightarrow> Inr (Some seg))
          else Inr None)"

text \<open>The value \<^verbatim>\<open>str(seg[n])\<close> under the guard \<^verbatim>\<open>seg and len(seg) > n\<close>; \<open>None\<close> when
  the guard fails.\<close>

definition field_at :: "hl7_segment option \<Rightarrow> nat \<Rightarrow> string option" where
  "field_at seg n =
     (case seg of
        None \<Rightarrow> None
      | Some fs \<Rightarrow> if fs \<noteq> [] \<and> length fs > n then Some (field_str (fs ! n)) else None)"

text \<open>The further guard \<^verbatim>\<open>and str(seg[n])\<close>: the text must not be empty.\<close>

definition nonempty :: "string option \<Rightarrow> string option" where
  "nonempty x = (case x of None \<Rightarrow> None | Some v \<Rightarrow> if v \<noteq> [] then Some v else None)"

definition or_default :: "string option \<Rightarrow> string \<Rightarrow> string" where
  "or_default x d = (case x of None \<Rightarrow> d | Some v \<Rightarrow> v)"

text \<open>\<^verbatim>\<open>s.split(sep)\<close> for a one-character separator: never the empty list.\<close>

fun split_on :: "char \<Rightarrow> string \<Rightarrow> string list" where
  "split_on sep [] = [[]]"
| "split_on sep (c # cs) =
     (if c = sep then [] # split_on sep cs
      else (case split_on sep cs of
              [] \<Rightarrow> [[c]]
            | x # xs \<Rightarrow> (c # x) # xs))"

text \<open>
  The body of the \<^verbatim>\<open>try\<close> block after parsing. The two random numbers
  \<^verbatim>\<open>random.randint(10000, 99999)\<close> and \<^verbatim>\<open>random.randint(1000, 9999)\<close> are inputs.
\<close>

definition extract_order :: "nat \<Rightarrow> nat \<Rightarrow> hl7_message \<Rightarrow> error + parsed_data" where
  "extract_order rand_msg rand_filler parsed =
     (case segment_or_none parsed ''MSH'' of Inl e \<Rightarrow> Inl e | Inr msh \<Rightarrow>
      case segment_or_none parsed ''PID'' of Inl e \<Rightarrow> Inl e | Inr pid \<Rightarrow>
      case segment_or_none parsed ''PV1'' of Inl e \<Rightarrow> Inl e | Inr pv1 \<Rightarrow>
      case segment_or_none parsed ''ORC'' of Inl e \<Rightarrow> Inl e | Inr orc \<Rightarrow>
      case segment_or_none parsed ''OBR'' of Inl e \<Rightarrow> Inl e | Inr obr \<Rightarrow>
      (let sending_application' = or_default (field_at msh 3) ''ORDER_SYSTEM'';
           sending_facility' = or_default (field_at msh 4) ''HOSPITAL'';
           message_control_id' = or_default (field_at msh 10) (''MSG'' @ str_int rand_msg);
           patient_id' = or_default (nonempty (field_at pid 3)) ''UNKNOWN'';
           patient_name' = or_default (nonempty (field_at pid 5)) ''DOE^JOHN'';
           patient_dob' = or_default (nonempty (field_at pid 7)) [];
           patient_sex' = or_default (nonempty (field_at pid 8)) ''U'';
           patient_address' = or_default (nonempty (field_at pid 11)) [];
           patient_phone' = or_default (nonempty (field_at pid 13)) [];
           encounter_id' = or_default (nonempty (field_at pv1 19)) [];
           placer_order' =
             (case nonempty (field_at orc 2) of
                Some v \<Rightarrow> v
              | None \<Rightarrow> or_default (nonempty (field_at obr 2)) ''ORDER123'');
           filler_order' =
             (case nonempty (field_at orc 3) of
                Some v \<Rightarrow> v
              | None \<Rightarrow> or_default (nonempty (field_at obr 3)) (''FILLER'' @ str_int rand_filler));
           ordering_provider' =
             (case nonempty (field_at orc 12) of
                Some v \<Rightarrow> v
              | None \<Rightarrow> or_default (nonempty (field_at obr 16)) [])
       in case obr of
            None \<Rightarrow> Inl ValueError
          | Some obr_fields \<Rightarrow>
              if obr_fields = [] \<or> length obr_fields \<le> 4 \<or> obr_fields ! 4 = []
              then Inl ValueError
              else
                (let obr_field_4 = field_str (obr_fields ! 4);
                     field_components = split_on (CHR ''^'') obr_field_4;
                     test_id' = (if length field_components > 0 \<and> field_components ! 0 \<noteq> []
                                 then Some (field_components ! 0) else None);
                     test_name' = (if length field_components > 1 then field_components ! 1
                                   else []);
                     test_system' = (if length field_components > 2 then field_components ! 2
                                     else [])
                 in case test_id' of
                      None \<Rightarrow> Inl ValueError
                    | Some tid \<Rightarrow>
                        Inr \<lparr>sending_application = sending_application',
                             sending_facility = sending_facility',
                             message_control_id = message_control_id',
                             patient_id = patient_id',
                             patient_name = patient_name',
                             patient_dob = patient_dob',
                             patient_sex = patient_sex',
                             patient_address = patient_address',
                             patient_phone = patient_phone',
                             encounter_id = encounter_id',
                             placer_order = placer_order',
                             filler_order = filler_order',
                             ordering_provider = ordering_provider',
                             test_id = tid,
                             test_name = test_name',
                             test_system = test_system'\<rparr>)))"

text \<open>
  The two library calls on the raw bytes are parameters:
  \<^verbatim>\<open>message.decode('utf-8', errors='ignore')\<close>, which cannot fail, and \<^verbatim>\<open>hl7.parse\<close>,
  with \<open>None\<close> when it raises.
\<close>

record hl7_runtime =
  decode_utf8 :: "bytes \<Rightarrow> string"
  hl7_parse :: "string \<Rightarrow> hl7_message option"

text \<open>\<^verbatim>\<open>parse_order_message\<close>: every exception of the body is caught and turned into
  \<^verbatim>\<open>None\<close>.\<close>

definition parse_order_message ::
  "hl7_runtime \<Rightarrow> nat \<Rightarrow> nat \<Rightarrow> bytes \<Rightarrow> parsed_data option" where
  "parse_order_message rt rand_msg rand_filler message =
     (case hl7_parse rt (decode_utf8 rt message) of
        None \<Rightarrow> None
      | Some parsed \<Rightarrow>
          (case extract_order rand_msg rand_filler parsed of
             Inl e \<Rightarrow> None
           | Inr d \<Rightarrow> Some d))"

subsection \<open>Inbound listener (\<^verbatim>\<open>DummyLabAnalyzer.handle_client\<close>)\<close>

text \<open>
  The message type and control id for the acknowledgment: the inner \<^verbatim>\<open>try\<close> block of
  \<^verbatim>\<open>handle_client\<close>, with the values of its \<^verbatim>\<open>except\<close> branch when parsing or the
  lookup of the header segment raises. The random number is an input.
\<close>

definition ack_fields :: "hl7_runtime \<Rightarrow> nat \<Rightarrow> bytes \<Rightarrow> string \<times> string" where
  "ack_fields rt rand_ctl message =
     (case hl7_parse rt (decode_utf8 rt message) of
        None \<Rightarrow> (''O01'', str_int rand_ctl)
      | Some parsed \<Rightarrow>
          (case message_segment parsed ''MSH'' of
             Inl e \<Rightarrow> (''O01'', str_int rand_ctl)
           | Inr msh \<Rightarrow>
               (let msg_type = or_default (field_at (Some msh) 9) ''ACK'';
                    base_type =
                      (if CHR ''^'' \<in> set msg_type
                       then (if length (split_on (CHR ''^'') msg_type) > 1
                             then split_on (CHR ''^'') msg_type ! 1
                             else split_on (CHR ''^'') msg_type ! 0)
                       else ''O01'');
                    msg_control_id = or_default (field_at (Some msh) 10) (str_int rand_ctl)
                in (base_type, msg_control_id))))"

text \<open>
  What one connection takes from its environment: the time stamp and random number of the
  acknowledgment, the random numbers of the fallbacks, the identifier and time stamp used
  by \<^verbatim>\<open>add_message\<close>, and whether \<^verbatim>\<open>writer.drain()\<close> completes (otherwise it raises
  and the outer \<^verbatim>\<open>except\<close> ends the handling).
\<close>

record client_env =
  ack_time :: string
  ack_rand :: nat
  ctl_rand :: nat
  msg_rand :: nat
  filler_rand :: nat
  new_uuid :: string
  receive_time :: string
  drain_ok :: bool

text \<open>
  \<^verbatim>\<open>handle_client\<close> on the bytes \<open>data\<close> read from the connection, with the global
  \<^verbatim>\<open>message_queue\<close> as \<open>queue\<close>. The result is the list of frames handed to
  \<^verbatim>\<open>writer.write\<close> and the heap afterwards.
\<close>

definition handle_client ::
  "hl7_runtime \<Rightarrow> client_env \<Rightarrow> MessageQueue \<Rightarrow> bytes \<Rightarrow> heap \<Rightarrow> bytes list \<times> heap" where
  "handle_client rt env queue data h =
     (if data = [] then ([], h)
      else
        (let message = unwrap_mllp data;
             decoded = decode_utf8 rt message;
             (base_type, msg_control_id) = ack_fields rt (ctl_rand env) message;
             ack_message =
               ''MSH|^~'' @ [CHR 0x5C] @ ''&|LAB_ANALYZER|DUMMY_LAB|ORDER_SYSTEM|HOSPITAL|'' @
               ack_time env @ ''||ACK^'' @ base_type @ ''|ACK'' @ str_int (ack_rand env) @
               ''|P|2.5'' @ [CHR 0x0D] @ ''MSA|AA|'' @ msg_control_id;
             written = [wrap_mllp (Str ack_message)]
         in if \<not> drain_ok env then (written, h)
            else
              (case parse_order_message rt (msg_rand env) (filler_rand env) message of
                 Some parsed \<Rightarrow>
                   (written,
                    snd (add_message (new_uuid env) (receive_time env) queue decoded parsed h))
               | None \<Rightarrow> (written, h))))"

text \<open>
  The condition of the mandatory-field rule, in the specification's words: the order-detail
  segment is absent, or its field 4 is absent or empty, or the first component of that
  field is empty.
\<close>

definition lacks_test_code :: "hl7_message \<Rightarrow> bool" where
  "lacks_test_code parsed =
     (case filter (\<lambda>seg. seg_id seg = Inr ''OBR'') parsed of
        [] \<Rightarrow> True
      | obr # others \<Rightarrow>
          if length obr \<le> 4 then True
          else if field_str (obr ! 4) = [] then True
          else hd (split_on (CHR ''^'') (field_str (obr ! 4))) = [])"

subsection \<open>Outbound sender (\<^verbatim>\<open>LabAnalyzerService.send_result\<close>)\<close>

text \<open>
  The network is the environment. Each awaited call either returns, raises, or (for the read
  under \<^verbatim>\<open>asyncio.wait_for(..., timeout=5.0)\<close>) runs into the timeout. A downstream
  receiver is given by the outcomes of the four awaited calls: \<^verbatim>\<open>open_connection\<close>,
  \<^verbatim>\<open>writer.drain()\<close>, \<^verbatim>\<open>reader.read(1024)\<close> under the timeout, and
  \<^verbatim>\<open>writer.wait_closed()\<close>. A read returns the bytes received, which is the empty
  byte string when the peer has closed the connection without sending.
\<close>

datatype 'a outcome = Returns 'a | Raises | TimesOut

record downstream =
  open_connection :: "unit outcome"
  drain :: "unit outcome"
  read_1024 :: "bytes outcome"
  wait_closed :: "unit outcome"

datatype net_action = Connect | Write bytes | Read | Close

text \<open>
  \<^verbatim>\<open>send_result\<close>: the result and the network actions made, in order. Both \<^verbatim>\<open>except\<close>
  clauses return \<^verbatim>\<open>False\<close>.
\<close>

definition send_result :: "downstream \<Rightarrow> string \<Rightarrow> bool \<times> net_action list" where
  "send_result ds message =
     (case open_connection ds of
        Returns u \<Rightarrow>
          (let mllp_message = wrap_mllp (Str message)
           in case drain ds of
                Returns u \<Rightarrow>
                  (case read_1024 ds of
                     Returns ack \<Rightarrow>
                       (case wait_closed ds of
                          Returns u \<Rightarrow> (True, [Connect, Write mllp_message, Read, Close])
                        | Raises \<Rightarrow> (False, [Connect, Write mllp_message, Read, Close])
                        | TimesOut \<Rightarrow> (False, [Connect, Write mllp_message, Read, Close]))
                   | Raises \<Rightarrow> (False, [Connect, Write mllp_message, Read])
                   | TimesOut \<Rightarrow> (False, [Connect, Write mllp_message, Read]))
              | Raises \<Rightarrow> (False, [Connect, Write mllp_message])
              | TimesOut \<Rightarrow> (False, [Connect, Write mllp_message]))
      | Raises \<Rightarrow> (False, [Connect])
      | TimesOut \<Rightarrow> (False, [Connect]))"

subsection \<open>Reading a composed result\<close>




subsection \<open>Sample data\<close>

text \<open>An empty heap, a queue, one order.\<close>

definition heap0 :: heap where
  "heap0 = \<lparr>dict_at = (\<lambda>_. []),
            message_at = (\<lambda>_. \<lparr>id_m = [], raw_message = [], parsed_data =
               \<lparr>sending_application = [], sending_facility = [], message_control_id = [],
                patient_id = [], patient_name = [], patient_dob = [], patient_sex = [],
                patient_address = [], patient_phone = [], encounter_id = [],
                placer_order = [], filler_order = [], ordering_provider = [],
                test_id = [], test_name = [], test_system = []\<rparr>,
               status = [], received_at = [], processed_at = None, result_message = None\<rparr>),
            dict_next = 0, message_next = 0\<rparr>"

definition order0 :: parsed_data where
  "order0 = \<lparr>sending_application = ''CARE'', sending_facility = ''HOSP'',
             message_control_id = ''MSG1'', patient_id = ''P1'', patient_name = ''DOE^JANE'',
             patient_dob = ''19800101'', patient_sex = ''F'', patient_address = [],
             patient_phone = [], encounter_id = [], placer_order = ''PL1'',
             filler_order = ''FL1'', ordering_provider = [], test_id = ''1554-5'',
             test_name = ''Glucose'', test_system = ''LN''\<rparr>"

definition queue0 :: MessageQueue where
  "queue0 = fst (init_queue heap0)"

definition heap1 :: heap where
  "heap1 = snd (add_message ''id-1'' ''t0'' queue0 ''raw'' order0 (snd (init_queue heap0)))"

definition heap2 :: heap where
  "heap2 = snd (update_status ''t1'' queue0 ''id-1'' ''processed'' None heap1)"


text \<open>Parsed order messages: a complete header without an order-detail segment; an
  order-detail segment whose field 4 has an empty first component; a header whose fields 3,
  4 and 10 are present and empty.\<close>

definition msh_sample :: hl7_segment where
  "msh_sample =
     [[''MSH''], [''|''], [''^~'' @ [CHR 0x5C] @ ''&''], [''CARE''], [''HOSP''], [''LAB''],
      [''ANALYZER''], [''20250101120000''], [[]], [''OML^O21''], [''MSG1''], [''P''], [''2.5'']]"

definition msh_empty_fields :: hl7_segment where
  "msh_empty_fields =
     [[''MSH''], [''|''], [''^~'' @ [CHR 0x5C] @ ''&''], [[]], [[]], [''LAB''],
      [''ANALYZER''], [''20250101120000''], [[]], [''OML^O21''], [[]], [''P''], [''2.5'']]"

definition pid_sample :: hl7_segment where
  "pid_sample =
     [[''PID''], [''1''], [[]], [''P1''], [[]], [''DOE^JANE''], [[]], [''19800101''], [[]]]"

definition order_without_obr :: hl7_message where
  "order_without_obr = [msh_sample, pid_sample]"

definition order_empty_code :: hl7_message where
  "order_empty_code =
     [msh_sample, pid_sample, [[''OBR''], [''1''], [''PL1''], [''FL1''], [''^Glucose'']]]"

definition order_empty_header :: hl7_message where
  "order_empty_header =
     [msh_empty_fields, pid_sample,
      [[''OBR''], [''1''], [''PL1''], [''FL1''], [''BMP^Basic metabolic panel^L'']]]"

text \<open>A runtime whose parser yields the given parsed message.\<close>

definition runtime_giving :: "hl7_message \<Rightarrow> hl7_runtime" where
  "runtime_giving parsed =
     \<lparr>decode_utf8 = map (\<lambda>b. char_of (unat b)), hl7_parse = (\<lambda>text. Some parsed)\<rparr>"

definition env0 :: client_env where
  "env0 = \<lparr>ack_time = ''20250101120000'', ack_rand = 10001, ctl_rand = 10002, msg_rand = 10003,
            filler_rand = 1004, new_uuid = ''id-2'', receive_time = ''t5'', drain_ok = True\<rparr>"

text \<open>A receiver that accepts the connection and the frame and closes without replying.\<close>

definition silent_receiver :: downstream where
  "silent_receiver =
     \<lparr>open_connection = Returns (), drain = Returns (), read_1024 = Returns [],
      wait_closed = Returns ()\<rparr>"

section \<open>Theorems\<close>

subsection \<open>MLLP codec\<close>

lemma wrapped_is_framed:
  "startswith (MLLP_START @ p @ MLLP_END) MLLP_START \<and> endswith (MLLP_START @ p @ MLLP_END) MLLP_END"
  by (simp add: startswith_def endswith_def MLLP_START_def MLLP_END_def)

lemma slice_of_frame: "slice_1_m2 (MLLP_START @ p @ MLLP_END) = p"
  by (simp add: slice_1_m2_def MLLP_START_def MLLP_END_def)

text \<open>
  C5. Framing round-trip: for every byte payload \<open>p\<close>, unwrapping the frame produced by
  wrapping \<open>p\<close> gives back exactly \<open>p\<close>.
\<close>

theorem unwrap_wrap_roundtrip: "unwrap_mllp (wrap_mllp (Bytes p)) = p"
  using wrapped_is_framed [of p] by (simp add: unwrap_mllp_def slice_of_frame)

subsection \<open>Order store: \<open>update_status\<close>\<close>

lemma update_status_absent:
  "get_message self mid h = None \<Longrightarrow> update_status now self mid st res h = (False, h)"
  by (simp add: update_status_def get_message_def)

lemma update_status_present:
  assumes "get_message self mid h = Some a"
  shows "update_status now self mid st res h =
     (True, h\<lparr>message_at := (message_at h)(a := (message_at h a)
        \<lparr>status := st,
         processed_at := (if terminal st then Some now else processed_at (message_at h a)),
         result_message := (if truthy res then res else result_message (message_at h a))\<rparr>)\<rparr>)"
  using assms by (simp add: update_status_def get_message_def Let_def)

lemma get_message_update_status:
  "get_message self mid' (snd (update_status now self mid st res h)) = get_message self mid' h"
  by (simp add: update_status_def get_message_def Let_def split: option.splits)

text \<open>The sample heaps.\<close>

lemma get_message_heap1: "get_message queue0 ''id-1'' heap1 = Some 0"
  by (simp add: get_message_def heap1_def queue0_def init_queue_def add_message_def heap0_def
      Let_def)

lemma get_message_heap1_other: "get_message queue0 ''id-2'' heap1 = None"
  by (simp add: get_message_def heap1_def queue0_def init_queue_def add_message_def heap0_def
      Let_def)

lemma message_at_heap1:
  "message_at heap1 0 =
     \<lparr>id_m = ''id-1'', raw_message = ''raw'', parsed_data = order0, status = ''pending'',
      received_at = ''t0'', processed_at = None, result_message = None\<rparr>"
  by (simp add: heap1_def queue0_def init_queue_def add_message_def heap0_def Let_def)

lemma queue0_allocated: "messages queue0 < dict_next heap1"
  by (simp add: heap1_def queue0_def init_queue_def add_message_def heap0_def Let_def)

lemma dict_at_heap1: "dict_at heap1 (messages queue0) = [(''id-1'', 0)]"
  by (simp add: heap1_def queue0_def init_queue_def add_message_def heap0_def Let_def)

lemma get_message_heap2: "get_message queue0 ''id-1'' heap2 = Some 0"
  by (simp add: heap2_def get_message_update_status get_message_heap1)

lemma message_at_heap2:
  "message_at heap2 0 =
     \<lparr>id_m = ''id-1'', raw_message = ''raw'', parsed_data = order0, status = ''processed'',
      received_at = ''t0'', processed_at = Some ''t1'', result_message = None\<rparr>"
  by (simp add: heap2_def update_status_present [OF get_message_heap1] message_at_heap1
      terminal_def)

text \<open>
  Against C8 as stated: a result message that is supplied but empty is not recorded. The
  test \<^verbatim>\<open>if result_message:\<close> is false for the empty string, so the call below leaves
  \<^verbatim>\<open>result_message\<close> at \<^verbatim>\<open>None\<close>.
\<close>

theorem update_status_empty_result_counterexample:
  "get_message queue0 ''id-1'' heap1 = Some 0 \<and>
   result_message
     (message_at (snd (update_status ''t1'' queue0 ''id-1'' ''processed'' (Some []) heap1)) 0)
     \<noteq> Some []"
  by (simp add: get_message_heap1 update_status_present message_at_heap1)

text \<open>
  C8 (amended). \<open>update_status\<close> returns false and leaves the whole heap as it was when the id
  is absent. When the id is present it returns true, sets the status to the new status,
  stamps \<open>processed_at\<close> exactly when the new status is \<open>processed\<close> or \<open>discarded\<close>
  (otherwise \<open>processed_at\<close> keeps its value), and records the result message whenever a
  non-empty result message is supplied; with no result message, or an empty one, the
  recorded result message keeps its value.
\<close>

theorem update_status_contract:
  "(get_message self mid h = None \<longrightarrow> update_status now self mid st res h = (False, h)) \<and>
   (\<forall>a. get_message self mid h = Some a \<longrightarrow>
      fst (update_status now self mid st res h) = True \<and>
      status (message_at (snd (update_status now self mid st res h)) a) = st \<and>
      processed_at (message_at (snd (update_status now self mid st res h)) a) =
        (if st = ''processed'' \<or> st = ''discarded'' then Some now
         else processed_at (message_at h a)) \<and>
      result_message (message_at (snd (update_status now self mid st res h)) a) =
        (case res of
           None \<Rightarrow> result_message (message_at h a)
         | Some r \<Rightarrow> if r = [] then result_message (message_at h a) else Some r))"
  by (cases res) (simp_all add: update_status_absent update_status_present terminal_def)

theorem update_status_contract_witness:
  "get_message queue0 ''id-2'' heap1 = None \<and>
   update_status ''t1'' queue0 ''id-2'' ''processed'' (Some ''ORU'') heap1 = (False, heap1) \<and>
   get_message queue0 ''id-1'' heap1 = Some 0 \<and>
   fst (update_status ''t1'' queue0 ''id-1'' ''processed'' (Some ''ORU'') heap1) = True \<and>
   status (message_at
     (snd (update_status ''t1'' queue0 ''id-1'' ''processed'' (Some ''ORU'') heap1)) 0)
     = ''processed'' \<and>
   processed_at (message_at
     (snd (update_status ''t1'' queue0 ''id-1'' ''processed'' (Some ''ORU'') heap1)) 0)
     = Some ''t1'' \<and>
   result_message (message_at
     (snd (update_status ''t1'' queue0 ''id-1'' ''processed'' (Some ''ORU'') heap1)) 0)
     = Some ''ORU''"
  using update_status_contract [of queue0 "''id-2''" heap1 "''t1''" "''processed''" "Some ''ORU''"]
        update_status_contract [of queue0 "''id-1''" heap1 "''t1''" "''processed''" "Some ''ORU''"]
  by (simp add: get_message_heap1 get_message_heap1_other)

text \<open>
  C10. \<open>update_status\<close> does not validate the status: for every string \<open>s\<close> and every id in
  the store the call returns true and stores \<open>s\<close> as it is. \<open>processed_at\<close> is stamped
  only when \<open>s\<close> is exactly \<open>processed\<close> or \<open>discarded\<close>, and it is never cleared: a
  message set back to \<open>pending\<close> keeps the time stamp it had.
\<close>

theorem update_status_no_validation:
  "get_message self mid h = Some a \<Longrightarrow>
     fst (update_status now self mid s res h) = True \<and>
     status (message_at (snd (update_status now self mid s res h)) a) = s \<and>
     processed_at (message_at (snd (update_status now self mid s res h)) a) =
       (if s = ''processed'' \<or> s = ''discarded'' then Some now
        else processed_at (message_at h a)) \<and>
     (processed_at (message_at h a) \<noteq> None \<longrightarrow>
        processed_at (message_at (snd (update_status now self mid s res h)) a) \<noteq> None) \<and>
     (s = ''pending'' \<longrightarrow>
        processed_at (message_at (snd (update_status now self mid s res h)) a) =
        processed_at (message_at h a))"
  by (simp add: update_status_present terminal_def)

theorem update_status_no_validation_witness:
  "get_message queue0 ''id-1'' heap2 = Some 0 \<and>
   processed_at (message_at heap2 0) = Some ''t1'' \<and>
   fst (update_status ''t2'' queue0 ''id-1'' ''pending'' None heap2) = True \<and>
   status (message_at (snd (update_status ''t2'' queue0 ''id-1'' ''pending'' None heap2)) 0)
     = ''pending'' \<and>
   processed_at (message_at (snd (update_status ''t2'' queue0 ''id-1'' ''pending'' None heap2)) 0)
     = Some ''t1''"
  using update_status_no_validation [OF get_message_heap2, of "''t2''" "''pending''" None]
  by (simp add: get_message_heap2 message_at_heap2)

subsection \<open>Order store: sequences of \<open>update_status\<close> calls\<close>

lemma get_message_calls:
  "get_message self mid' (update_status_calls self mid calls h) = get_message self mid' h"
  by (induction calls arbitrary: h) (auto simp: get_message_update_status)

lemma calls_processed_at_kept:
  "get_message self mid h = Some a \<Longrightarrow> processed_at (message_at h a) \<noteq> None \<Longrightarrow>
   processed_at (message_at (update_status_calls self mid calls h) a) \<noteq> None"
proof (induction calls arbitrary: h)
  case Nil
  then show ?case by simp
next
  case (Cons c calls)
  obtain now st res where c: "c = (now, st, res)" by (cases c)
  let ?h = "snd (update_status now self mid st res h)"
  have "get_message self mid ?h = Some a"
    using Cons.prems(1) by (simp add: get_message_update_status)
  moreover have "processed_at (message_at ?h a) \<noteq> None"
    using Cons.prems by (simp add: update_status_present)
  ultimately show ?case using Cons.IH [of ?h] c by simp
qed

lemma calls_nonterminal_processed_at:
  "get_message self mid h = Some a \<Longrightarrow>
   list_all (\<lambda>(now, st, res). \<not> terminal st) calls \<Longrightarrow>
   processed_at (message_at (update_status_calls self mid calls h) a) =
   processed_at (message_at h a)"
proof (induction calls arbitrary: h)
  case Nil
  then show ?case by simp
next
  case (Cons c calls)
  obtain now st res where c: "c = (now, st, res)" by (cases c)
  let ?h = "snd (update_status now self mid st res h)"
  have g: "get_message self mid ?h = Some a"
    using Cons.prems(1) by (simp add: get_message_update_status)
  have "processed_at (message_at ?h a) = processed_at (message_at h a)"
    using Cons.prems c by (simp add: update_status_present)
  then show ?case using Cons.IH [OF g] Cons.prems(2) c by simp
qed

lemma calls_last_status:
  "get_message self mid h = Some a \<Longrightarrow> calls \<noteq> [] \<Longrightarrow>
   status (message_at (update_status_calls self mid calls h) a) = fst (snd (last calls))"
proof (induction calls arbitrary: h)
  case Nil
  then show ?case by simp
next
  case (Cons c calls)
  obtain now st res where c: "c = (now, st, res)" by (cases c)
  let ?h = "snd (update_status now self mid st res h)"
  have g: "get_message self mid ?h = Some a"
    using Cons.prems(1) by (simp add: get_message_update_status)
  show ?case
  proof (cases "calls = []")
    case True
    then show ?thesis using Cons.prems(1) c by (simp add: update_status_present)
  next
    case False
    then show ?thesis using Cons.IH [OF g False] c by simp
  qed
qed

lemma calls_terminal_kept:
  "get_message self mid h = Some a \<Longrightarrow> terminal (status (message_at h a)) \<Longrightarrow>
   list_all (\<lambda>(now, st, res). terminal st) calls \<Longrightarrow>
   terminal (status (message_at (update_status_calls self mid calls h) a))"
proof (cases "calls = []")
  case True
  assume "terminal (status (message_at h a))"
  then show ?thesis using True by simp
next
  case False
  assume g: "get_message self mid h = Some a"
    and all: "list_all (\<lambda>(now, st, res). terminal st) calls"
  have "last calls \<in> set calls" using False by simp
  then have "terminal (fst (snd (last calls)))"
    using all by (auto simp: list_all_iff)
  then show ?thesis using calls_last_status [OF g False] by simp
qed

text \<open>
  Against C2 as stated: on a message that is \<open>processed\<close> with time stamp \<open>t1\<close>, one more
  call sets the status back to \<open>pending\<close>, and a call with \<open>discarded\<close> replaces the time
  stamp.
\<close>

theorem status_monotone_counterexample:
  "get_message queue0 ''id-1'' heap2 = Some 0 \<and>
   status (message_at heap2 0) = ''processed'' \<and>
   processed_at (message_at heap2 0) = Some ''t1'' \<and>
   status (message_at
     (update_status_calls queue0 ''id-1'' [(''t2'', ''pending'', None)] heap2) 0) = ''pending'' \<and>
   processed_at (message_at
     (update_status_calls queue0 ''id-1'' [(''t2'', ''discarded'', None)] heap2) 0) = Some ''t2''"
  by (simp add: get_message_heap2 message_at_heap2 update_status_present terminal_def)

text \<open>
  C2 (amended). For every id and every sequence of \<open>update_status\<close> calls on that id made
  after a terminal status has been set: \<open>processed_at\<close> stays set; it keeps its value when
  none of the calls passes a terminal status; the status stays terminal when every call
  passes a terminal status; and after a non-empty sequence the status is the one passed by
  the last call, whatever it is.
\<close>

theorem update_status_calls_after_terminal:
  "get_message self mid h = Some a \<Longrightarrow> terminal (status (message_at h a)) \<Longrightarrow>
   processed_at (message_at h a) \<noteq> None \<Longrightarrow>
     processed_at (message_at (update_status_calls self mid calls h) a) \<noteq> None \<and>
     (list_all (\<lambda>(now, st, res). \<not> terminal st) calls \<longrightarrow>
        processed_at (message_at (update_status_calls self mid calls h) a) =
        processed_at (message_at h a)) \<and>
     (list_all (\<lambda>(now, st, res). terminal st) calls \<longrightarrow>
        terminal (status (message_at (update_status_calls self mid calls h) a))) \<and>
     (calls \<noteq> [] \<longrightarrow>
        status (message_at (update_status_calls self mid calls h) a) = fst (snd (last calls)))"
  by (simp add: calls_processed_at_kept calls_nonterminal_processed_at calls_terminal_kept
      calls_last_status)

theorem update_status_calls_after_terminal_witness:
  "get_message queue0 ''id-1'' heap2 = Some 0 \<and> terminal (status (message_at heap2 0)) \<and>
   processed_at (message_at heap2 0) = Some ''t1'' \<and>
   processed_at (message_at (update_status_calls queue0 ''id-1''
      [(''t2'', ''pending'', None), (''t3'', ''on hold'', None)] heap2) 0) = Some ''t1'' \<and>
   status (message_at (update_status_calls queue0 ''id-1''
      [(''t2'', ''pending'', None), (''t3'', ''on hold'', None)] heap2) 0) = ''on hold'' \<and>
   terminal (status (message_at (update_status_calls queue0 ''id-1''
      [(''t2'', ''discarded'', None)] heap2) 0))"
  using update_status_calls_after_terminal [OF get_message_heap2,
          of "[(''t2'', ''pending'', None), (''t3'', ''on hold'', None)]"]
        update_status_calls_after_terminal [OF get_message_heap2,
          of "[(''t2'', ''discarded'', None)]"]
  by (simp add: get_message_heap2 message_at_heap2 terminal_def)

subsection \<open>Order store: what the read operations return\<close>

lemma get_all_messages_fresh:
  assumes "messages self < dict_next h"
  shows "fst (get_all_messages self h) \<noteq> messages self"
    and "dict_at (snd (get_all_messages self h)) (messages self) = dict_at h (messages self)"
    and "dict_at (snd (get_all_messages self h)) (fst (get_all_messages self h)) =
           dict_at h (messages self)"
    and "message_at (snd (get_all_messages self h)) = message_at h"
  using assms by (auto simp: get_all_messages_def)

lemma get_pending_messages_fresh:
  assumes "messages self < dict_next h"
  shows "fst (get_pending_messages self h) \<noteq> messages self"
    and "dict_at (snd (get_pending_messages self h)) (messages self) = dict_at h (messages self)"
    and "dict_at (snd (get_pending_messages self h)) (fst (get_pending_messages self h)) =
           filter (\<lambda>(k, v). status (message_at h v) = ''pending'') (dict_at h (messages self))"
    and "message_at (snd (get_pending_messages self h)) = message_at h"
  using assms by (auto simp: get_pending_messages_def)

lemma stored_mutate_dict:
  "d \<noteq> messages self \<Longrightarrow> stored self mid (mutate_dict d f h) = stored self mid h"
  by (simp add: stored_def get_message_def mutate_dict_def)

lemma stored_mutate_message:
  "get_message self mid h = Some a \<Longrightarrow>
   stored self mid (mutate_message a f h) = Some (f (message_at h a))"
  by (simp add: stored_def get_message_def mutate_message_def)

lemma stored_read_all:
  "messages self < dict_next h \<Longrightarrow>
   stored self mid (snd (get_all_messages self h)) = stored self mid h"
  by (simp add: stored_def get_message_def get_all_messages_fresh)

lemma stored_read_pending:
  "messages self < dict_next h \<Longrightarrow>
   stored self mid (snd (get_pending_messages self h)) = stored self mid h"
  by (simp add: stored_def get_message_def get_pending_messages_fresh)

text \<open>The dictionary of a queue stays allocated: the hypothesis of the theorem below is
  established by \<open>init_queue\<close> and kept by every operation.\<close>

lemma init_queue_allocated:
  "messages (fst (init_queue h)) < dict_next (snd (init_queue h))"
  by (simp add: init_queue_def)

lemma allocated_kept:
  assumes "messages self < dict_next h"
  shows "messages self < dict_next (snd (add_message uuid4 now self raw parsed h))"
    and "messages self < dict_next (snd (update_status now self mid st res h))"
    and "messages self < dict_next (snd (get_all_messages self h))"
    and "messages self < dict_next (snd (get_pending_messages self h))"
  using assms
  by (auto simp: add_message_def update_status_def get_all_messages_def
      get_pending_messages_def Let_def split: option.splits)

text \<open>
  Against C3 as stated: the three read operations hand out the reference the store holds
  (address 0 here), and a change made through it is a change of the stored message.
\<close>

theorem read_returns_live_reference_counterexample:
  "get_message queue0 ''id-1'' heap1 = Some 0 \<and>
   map_of (dict_at (snd (get_all_messages queue0 heap1)) (fst (get_all_messages queue0 heap1)))
     ''id-1'' = Some 0 \<and>
   map_of (dict_at (snd (get_pending_messages queue0 heap1))
     (fst (get_pending_messages queue0 heap1))) ''id-1'' = Some 0 \<and>
   map_option status (stored queue0 ''id-1'' heap1) = Some ''pending'' \<and>
   map_option status
     (stored queue0 ''id-1'' (mutate_message 0 (\<lambda>m. m\<lparr>status := ''discarded''\<rparr>) heap1))
     = Some ''discarded''"
proof -
  have "stored queue0 ''id-1'' heap1 = Some (message_at heap1 0)"
    by (simp add: stored_def get_message_heap1)
  then show ?thesis
    by (simp add: get_message_heap1 get_all_messages_fresh [OF queue0_allocated]
        get_pending_messages_fresh [OF queue0_allocated] dict_at_heap1 message_at_heap1
        stored_mutate_message [OF get_message_heap1])
qed

text \<open>
  C3 (amended). \<open>get_all_messages\<close> and \<open>get_pending_messages\<close> return a newly built outer
  dictionary (all entries, respectively the pending entries, in the store's order): any
  change of that dictionary leaves every stored message as it was. The messages it refers
  to, and the message \<open>get_message\<close> returns, are the store's own objects and not copies:
  a change made to a returned message is a change of the stored message.
\<close>

theorem reads_share_messages:
  assumes "messages self < dict_next h"
  shows
   "(\<forall>f mid. stored self mid (mutate_dict (fst (get_all_messages self h)) f
                 (snd (get_all_messages self h))) = stored self mid h) \<and>
    (\<forall>f mid. stored self mid (mutate_dict (fst (get_pending_messages self h)) f
                 (snd (get_pending_messages self h))) = stored self mid h) \<and>
    dict_at (snd (get_all_messages self h)) (fst (get_all_messages self h)) =
      dict_at h (messages self) \<and>
    dict_at (snd (get_pending_messages self h)) (fst (get_pending_messages self h)) =
      filter (\<lambda>(k, v). status (message_at h v) = ''pending'') (dict_at h (messages self)) \<and>
    (\<forall>mid a f. get_message self mid h = Some a \<longrightarrow>
       stored self mid (mutate_message a f h) = Some (f (message_at h a)) \<and>
       stored self mid (mutate_message a f (snd (get_all_messages self h))) =
         Some (f (message_at h a)) \<and>
       stored self mid (mutate_message a f (snd (get_pending_messages self h))) =
         Some (f (message_at h a)))"
proof -
  have g1: "get_message self mid (snd (get_all_messages self h)) = get_message self mid h"
    for mid
    using assms by (simp add: get_message_def get_all_messages_fresh)
  have g2: "get_message self mid (snd (get_pending_messages self h)) = get_message self mid h"
    for mid
    using assms by (simp add: get_message_def get_pending_messages_fresh)
  show ?thesis
    using assms
    by (simp add: stored_mutate_dict get_all_messages_fresh get_pending_messages_fresh
        stored_read_all stored_read_pending stored_mutate_message g1 g2)
qed

theorem reads_share_messages_witness:
  "messages queue0 < dict_next heap1 \<and>
   get_message queue0 ''id-1'' heap1 = Some 0 \<and>
   dict_at (snd (get_all_messages queue0 heap1)) (fst (get_all_messages queue0 heap1)) =
     [(''id-1'', 0)] \<and>
   dict_at (snd (get_pending_messages queue0 heap1)) (fst (get_pending_messages queue0 heap1)) =
     [(''id-1'', 0)] \<and>
   stored queue0 ''id-1'' (mutate_dict (fst (get_all_messages queue0 heap1)) (\<lambda>d. [])
      (snd (get_all_messages queue0 heap1))) = stored queue0 ''id-1'' heap1 \<and>
   map_option status (stored queue0 ''id-1''
      (mutate_message 0 (\<lambda>m. m\<lparr>status := ''discarded''\<rparr>) (snd (get_all_messages queue0 heap1))))
     = Some ''discarded''"
  using reads_share_messages [OF queue0_allocated]
  by (simp add: queue0_allocated get_message_heap1 dict_at_heap1 message_at_heap1)

subsection \<open>Result composer\<close>














text \<open>
  C1. Composing for the test code \<open>NOT_A_TEST\<close>, which is not in the table: the lookup
  yields the empty list and the composer returns a result text with the header, patient,
  order-control and order-detail segments and no observation segment. No error is raised.
\<close>

theorem create_result_message_unknown_test:
  "create_result_message fl ''20250101120000'' (order0\<lparr>test_id := ''NOT_A_TEST''\<rparr>) vals oi =
   join [CHR 0x0D]
     [''MSH|^~'' @ [CHR 0x5C] @
      ''&|LAB_ANALYZER|DUMMY_LAB|CARE|HOSP|20250101120000||ORU^R01|MSG1_RESULT|P|2.5'',
      ''PID|1||P1||DOE^JANE||19800101|F||||||||||||'',
      ''ORC|RE|PL1|FL1||CM||||20250101120000|||'',
      ''OBR|1|PL1|FL1|NOT_A_TEST^Glucose^LN|||20250101120000|||||||20250101120000|||||||||||F'']"
  by (simp add: create_result_message_def create_result_segments_def Let_def order0_def
      get_observation_fields_def test_fields_def strip_def is_space_def)

subsection \<open>Order extraction\<close>

lemma split_on_nonempty: "split_on sep s \<noteq> []"
  by (induction s) (auto split: list.splits)

lemma seg_ids_mem:
  "seg_ids parsed = Inr ids \<Longrightarrow>
   (sid \<in> set ids) = (filter (\<lambda>seg. seg_id seg = Inr sid) parsed \<noteq> [])"
  by (induction parsed arbitrary: ids) (auto split: sum.splits)

text \<open>When the lookup of a segment does not raise, it gives the first segment with the id.\<close>

lemma segment_or_none_Inr:
  assumes "segment_or_none parsed sid = Inr r"
  shows "r = (case filter (\<lambda>seg. seg_id seg = Inr sid) parsed of
                [] \<Rightarrow> None
              | seg # rest \<Rightarrow> Some seg)"
  using assms seg_ids_mem [of parsed _ sid]
  by (auto simp: segment_or_none_def message_segment_def
      split: sum.splits if_splits list.splits)

text \<open>A successful extraction has passed both checks on the order-detail segment.\<close>

lemma extract_order_obr:
  assumes "extract_order r1 r2 parsed = Inr d"
  shows "\<exists>obr. segment_or_none parsed ''OBR'' = Inr (Some obr) \<and> length obr > 4 \<and>
           split_on (CHR ''^'') (field_str (obr ! 4)) ! 0 \<noteq> []"
  using assms unfolding extract_order_def Let_def
  by (auto split: sum.splits option.splits if_splits)

lemma lacks_test_code_fails:
  assumes "lacks_test_code parsed"
  shows "extract_order r1 r2 parsed \<noteq> Inr d"
proof
  assume "extract_order r1 r2 parsed = Inr d"
  from extract_order_obr [OF this] obtain obr where
    s: "segment_or_none parsed ''OBR'' = Inr (Some obr)" and l: "length obr > 4"
    and c: "split_on (CHR ''^'') (field_str (obr ! 4)) ! 0 \<noteq> []" by blast
  from segment_or_none_Inr [OF s] obtain rest where
    f: "filter (\<lambda>seg. seg_id seg = Inr ''OBR'') parsed = obr # rest"
    by (auto split: list.splits)
  have "hd (split_on (CHR ''^'') (field_str (obr ! 4))) \<noteq> []"
    using c split_on_nonempty [of "CHR ''^''" "field_str (obr ! 4)"] by (simp add: hd_conv_nth)
  moreover have "field_str (obr ! 4) \<noteq> []"
    using c by auto
  ultimately show False using assms f l by (simp add: lacks_test_code_def)
qed

lemma lacks_without_obr: "lacks_test_code order_without_obr"
  by (simp add: lacks_test_code_def order_without_obr_def msh_sample_def pid_sample_def)

lemma lacks_empty_code: "lacks_test_code order_empty_code"
  by (simp add: lacks_test_code_def order_empty_code_def msh_sample_def pid_sample_def
      field_str_def)

text \<open>
  C4. For every inbound order message whose parsed form has no order-detail (OBR) segment,
  or whose first OBR segment has no field 4, or an empty field 4, or a field 4 with an empty
  first component: \<open>parse_order_message\<close> yields no record, and \<open>handle_client\<close> on any
  frame that unwraps to this message leaves the store (the whole heap) as it was.
\<close>

theorem missing_test_code_rejected:
  "hl7_parse rt (decode_utf8 rt message) = Some parsed \<Longrightarrow> lacks_test_code parsed \<Longrightarrow>
     parse_order_message rt r1 r2 message = None \<and>
     (\<forall>env queue data h. unwrap_mllp data = message \<longrightarrow>
        snd (handle_client rt env queue data h) = h)"
proof -
  assume p: "hl7_parse rt (decode_utf8 rt message) = Some parsed"
    and l: "lacks_test_code parsed"
  have none: "parse_order_message rt r1 r2 message = None" for r1 r2
    using p lacks_test_code_fails [OF l, of r1 r2]
    by (auto simp: parse_order_message_def split: sum.splits)
  show ?thesis
    using none by (simp add: handle_client_def Let_def split_def)
qed

theorem missing_test_code_rejected_witness:
  "hl7_parse (runtime_giving order_without_obr)
     (decode_utf8 (runtime_giving order_without_obr) (encode_utf8 ''order'')) =
     Some order_without_obr \<and>
   lacks_test_code order_without_obr \<and>
   unwrap_mllp (wrap_mllp (Str ''order'')) = encode_utf8 ''order'' \<and>
   parse_order_message (runtime_giving order_without_obr) 10003 1004 (encode_utf8 ''order'')
     = None \<and>
   snd (handle_client (runtime_giving order_without_obr) env0 queue0 (wrap_mllp (Str ''order''))
     heap1) = heap1 \<and>
   lacks_test_code order_empty_code \<and>
   parse_order_message (runtime_giving order_empty_code) 10003 1004 (encode_utf8 ''order'')
     = None"
proof -
  have u: "unwrap_mllp (wrap_mllp (Str ''order'')) = encode_utf8 ''order''"
    using wrapped_is_framed [of "encode_utf8 ''order''"]
    by (simp add: unwrap_mllp_def slice_of_frame)
  have p1: "hl7_parse (runtime_giving order_without_obr)
     (decode_utf8 (runtime_giving order_without_obr) (encode_utf8 ''order'')) =
     Some order_without_obr"
    by (simp add: runtime_giving_def)
  have p2: "hl7_parse (runtime_giving order_empty_code)
     (decode_utf8 (runtime_giving order_empty_code) (encode_utf8 ''order'')) =
     Some order_empty_code"
    by (simp add: runtime_giving_def)
  show ?thesis
    using missing_test_code_rejected [OF p1 lacks_without_obr, of 10003 1004]
      missing_test_code_rejected [OF p2 lacks_empty_code, of 10003 1004]
      u p1 lacks_without_obr lacks_empty_code
    by simp
qed

text \<open>
  C7. An order whose header segment has its fields 3, 4 and 10 present and empty: the
  extraction keeps the three empty strings as sending application, sending facility and
  message control id. The literal defaults and the generated id are not used, while the
  empty patient field 8 of the same message does get its default \<open>U\<close>.
\<close>

theorem empty_header_fields_kept:
  "parse_order_message (runtime_giving order_empty_header) 12345 1234 raw =
   Some \<lparr>sending_application = [], sending_facility = [], message_control_id = [],
         patient_id = ''P1'', patient_name = ''DOE^JANE'', patient_dob = ''19800101'',
         patient_sex = ''U'', patient_address = [], patient_phone = [], encounter_id = [],
         placer_order = ''PL1'', filler_order = ''FL1'', ordering_provider = [], test_id = ''BMP'',
         test_name = ''Basic metabolic panel'', test_system = ''L''\<rparr>"
  by (simp add: parse_order_message_def runtime_giving_def extract_order_def
      order_empty_header_def msh_empty_fields_def pid_sample_def segment_or_none_def
      message_segment_def field_at_def nonempty_def or_default_def field_str_def Let_def)

subsection \<open>Outbound sender\<close>

text \<open>The sender returns true exactly when all four awaited calls return, whatever the
  read returned; it connects once.\<close>

lemma send_result_true_iff:
  "fst (send_result ds message) =
   (open_connection ds = Returns () \<and> drain ds = Returns () \<and>
    (\<exists>ack. read_1024 ds = Returns ack) \<and> wait_closed ds = Returns ())"
  by (auto simp: send_result_def Let_def split: outcome.splits)

lemma send_result_one_attempt:
  "length (filter (\<lambda>a. a = Connect) (snd (send_result ds message))) = 1"
  by (simp add: send_result_def Let_def split: outcome.splits)

text \<open>
  C6. A receiver that accepts the connection and closes it without sending a byte: the read
  returns the empty byte string, no exception is raised, and \<open>send_result\<close> returns true
  after its single attempt.
\<close>

theorem send_result_without_response:
  "read_1024 silent_receiver = Returns [] \<and>
   send_result silent_receiver message =
     (True, [Connect, Write (wrap_mllp (Str message)), Read, Close])"
  by (simp add: send_result_def silent_receiver_def)


end
